theory Spec2Isabelle
  imports Complex_Main
begin

section \<open>JavaScript values\<close>

text \<open>
  A JavaScript number is either \<open>NaN\<close> or a numeric value. Finite doubles are idealised
  as real numbers: rounding error, overflow to \<open>Infinity\<close> and the sign of zero are outside
  the model. Every operator below propagates \<open>NaN\<close> the way the language does.
\<close>

datatype jsnum = NaN | Fin real

text \<open>The values a numeric argument (\<open>points\<close>, \<open>commentCount\<close>) can hold.\<close>

datatype jsval = Null | Undefined | Num jsnum

text \<open>\<open>ToNumber\<close>: \<open>null\<close> becomes 0 and \<open>undefined\<close> becomes \<open>NaN\<close>.\<close>

fun to_number :: "jsval \<Rightarrow> jsnum" where
  "to_number Null = Fin 0"
| "to_number Undefined = NaN"
| "to_number (Num n) = n"

text \<open>\<open>!v\<close>: \<open>null\<close>, \<open>undefined\<close>, \<open>NaN\<close> and 0 are the falsy values.\<close>

fun falsy :: "jsval \<Rightarrow> bool" where
  "falsy Null = True"
| "falsy Undefined = True"
| "falsy (Num NaN) = True"
| "falsy (Num (Fin x)) = (x = 0)"

fun js_sub :: "jsnum \<Rightarrow> jsnum \<Rightarrow> jsnum" where
  "js_sub (Fin a) (Fin b) = Fin (a - b)"
| "js_sub _ _ = NaN"

fun js_mul :: "jsnum \<Rightarrow> jsnum \<Rightarrow> jsnum" where
  "js_mul (Fin a) (Fin b) = Fin (a * b)"
| "js_mul _ _ = NaN"

text \<open>
  Division. The source only ever divides by \<open>1000 * 60 * 60\<close>, by 4, by 10, by
  \<open>hoursOld\<close> (at least 0.1 or \<open>NaN\<close>) and by \<open>points\<close> behind the guard \<open>points > 0\<close>;
  a zero divisor, where JavaScript gives an infinity or \<open>NaN\<close>, is mapped to \<open>NaN\<close>.
\<close>

fun js_div :: "jsnum \<Rightarrow> jsnum \<Rightarrow> jsnum" where
  "js_div (Fin a) (Fin b) = (if b = 0 then NaN else Fin (a / b))"
| "js_div _ _ = NaN"

text \<open>The comparisons \<open>>=\<close>, \<open>>\<close> and \<open><\<close> are false as soon as one side is \<open>NaN\<close>.\<close>

fun js_ge :: "jsnum \<Rightarrow> jsnum \<Rightarrow> bool" where
  "js_ge (Fin a) (Fin b) = (b \<le> a)"
| "js_ge _ _ = False"

fun js_gt :: "jsnum \<Rightarrow> jsnum \<Rightarrow> bool" where
  "js_gt (Fin a) (Fin b) = (b < a)"
| "js_gt _ _ = False"

fun js_lt :: "jsnum \<Rightarrow> jsnum \<Rightarrow> bool" where
  "js_lt (Fin a) (Fin b) = (a < b)"
| "js_lt _ _ = False"

text \<open>\<open>Math.max\<close> of two arguments returns \<open>NaN\<close> if either is \<open>NaN\<close>.\<close>

fun Math_max :: "jsnum \<Rightarrow> jsnum \<Rightarrow> jsnum" where
  "Math_max (Fin a) (Fin b) = Fin (max a b)"
| "Math_max _ _ = NaN"

text \<open>\<open>Math.round\<close> rounds to the nearest integer, a half towards plus infinity.\<close>

fun Math_round :: "jsnum \<Rightarrow> jsnum" where
  "Math_round (Fin a) = Fin (of_int \<lfloor>a + 1 / 2\<rfloor>)"
| "Math_round NaN = NaN"

text \<open>The idiom \<open>Math.round(x * 10) / 10\<close> of the source.\<close>

definition round1 :: "jsnum \<Rightarrow> jsnum" where
  "round1 x = js_div (Math_round (js_mul x (Fin 10))) (Fin 10)"


section \<open>Hotness engine\<close>

text \<open>
  The \<open>timestamp\<close> argument: \<open>null\<close>, \<open>undefined\<close>, a \<open>Date\<close> object with its time
  value in milliseconds (\<open>None\<close> for an invalid date, whose time value is \<open>NaN\<close>), or any
  other value, which is not an instance of \<open>Date\<close>. A \<open>Date\<close> object is always truthy.
\<close>

datatype timestamp_arg = TsNull | TsUndefined | DateObj "int option" | NotADate

text \<open>The number a \<open>Date\<close> converts to under the operator \<open>-\<close>.\<close>

fun time_value :: "int option \<Rightarrow> jsnum" where
  "time_value None = NaN"
| "time_value (Some ms) = Fin (of_int ms)"

datatype level = fire | hot | warm | mild | cold

datatype icon = Flame | Chart

text \<open>
  The reason strings. \<open>PtsPerHr i n\<close> stands for the template literal
  \<open>`<icon> ${Math.round(velocity)} pts/hr`\<close> with \<open>n\<close> the interpolated number and
  \<open>i\<close> the emoji in front of it; \<open>Fresh\<close> is the literal with the "new" emoji.
\<close>

datatype reason = PtsPerHr icon jsnum | Fresh

text \<open>The result object; \<open>hoursOld = None\<close> means that the object has no such field.\<close>

record hotness =
  score :: jsnum
  velocity :: jsnum
  level :: level
  reason :: "reason option"
  hoursOld :: "jsnum option"

text \<open>
  The local constants of \<open>calculateHotness\<close>, each as a function of what it is computed
  from. \<open>now\<close> is the time value of the \<open>new Date()\<close> that the function takes.
\<close>

definition hoursOld_at :: "int \<Rightarrow> int option \<Rightarrow> jsnum" where
  "hoursOld_at now t =
     Math_max (js_div (js_sub (Fin (of_int now)) (time_value t)) (Fin (1000 * 60 * 60)))
              (Fin (1 / 10))"

definition velocity_at :: "jsval \<Rightarrow> jsnum \<Rightarrow> jsnum" where
  "velocity_at points h = js_div (to_number points) h"

definition recencyMultiplier_at :: "jsnum \<Rightarrow> jsnum" where
  "recencyMultiplier_at h = Math_max (Fin 1) (js_sub (Fin 3) (js_div h (Fin 4)))"

definition score_at :: "jsval \<Rightarrow> jsnum \<Rightarrow> jsnum" where
  "score_at points h = js_mul (velocity_at points h) (recencyMultiplier_at h)"

definition classify :: "jsnum \<Rightarrow> jsnum \<Rightarrow> jsnum \<Rightarrow> level \<times> reason option" where
  "classify sc vel h =
     (if js_ge sc (Fin 100) then (fire, Some (PtsPerHr Flame (Math_round vel)))
      else if js_ge sc (Fin 50) then (hot, Some (PtsPerHr Flame (Math_round vel)))
      else if js_ge sc (Fin 20) then (warm, Some (PtsPerHr Chart (Math_round vel)))
      else if js_ge sc (Fin 5) then (mild, if js_lt h (Fin 2) then Some Fresh else None)
      else (cold, None))"

definition calculateHotness :: "int \<Rightarrow> jsval \<Rightarrow> timestamp_arg \<Rightarrow> hotness" where
  "calculateHotness now points timestamp =
     (case timestamp of
        DateObj t \<Rightarrow>
          (let h = hoursOld_at now t;
               vel = velocity_at points h;
               sc = score_at points h;
               (lv, rs) = classify sc vel h
           in \<lparr>score = round1 sc, velocity = round1 vel, level = lv, reason = rs,
               hoursOld = Some (round1 h)\<rparr>)
      | _ \<Rightarrow> \<lparr>score = Fin 0, velocity = Fin 0, level = cold, reason = None,
               hoursOld = None\<rparr>)"

text \<open>The order of the levels, coldest first.\<close>

fun level_rank :: "level \<Rightarrow> nat" where
  "level_rank cold = 0"
| "level_rank mild = 1"
| "level_rank warm = 2"
| "level_rank hot = 3"
| "level_rank fire = 4"


section \<open>Discussion intensity\<close>

datatype intensity = intense | controversial | active

text \<open>
  \<open>Comments n\<close> is \<open>`<bubble> ${commentCount} comments`\<close>, \<open>Heated_debate\<close> the literal
  \<open>`<bubble> Heated debate`\<close> and \<open>Discussing n\<close> is
  \<open>`<bubble> ${commentCount} discussing`\<close>.
\<close>

datatype discussion_reason = Comments jsnum | Heated_debate | Discussing jsnum

record discussion =
  d_level :: intensity
  d_reason :: discussion_reason

definition calculateDiscussionIntensity :: "jsval \<Rightarrow> jsval \<Rightarrow> discussion option" where
  "calculateDiscussionIntensity commentCount points =
     (if falsy commentCount \<or> js_lt (to_number commentCount) (Fin 10) then None
      else
        let ratio = (if js_gt (to_number points) (Fin 0)
                     then js_div (to_number commentCount) (to_number points) else Fin 0)
        in if js_ge (to_number commentCount) (Fin 200)
           then Some \<lparr>d_level = intense, d_reason = Comments (to_number commentCount)\<rparr>
           else if js_gt ratio (Fin 2) \<and> js_ge (to_number commentCount) (Fin 50)
           then Some \<lparr>d_level = controversial, d_reason = Heated_debate\<rparr>
           else if js_ge (to_number commentCount) (Fin 100)
           then Some \<lparr>d_level = active, d_reason = Discussing (to_number commentCount)\<rparr>
           else None)"


section \<open>Trending topic extractor\<close>

text \<open>
  A title is a \<open>string\<close>, its characters being the code units U+0000 to U+00FF.
  \<open>STOP_WORDS\<close> and \<open>TECH_KEYWORDS\<close> are the two sets of the source, element by element;
  \<open>has\<close> on them is membership in the list.
\<close>

definition STOP_WORDS :: "string list" where
  "STOP_WORDS =
    [''the'', ''a'', ''an'', ''and'', ''or'', ''but'', ''in'', ''on'', ''at'', ''to'', ''for'',
     ''of'', ''with'', ''by'', ''from'', ''is'', ''it'', ''as'', ''be'', ''was'', ''are'',
     ''been'', ''being'', ''have'', ''has'', ''had'', ''do'', ''does'', ''did'', ''will'',
     ''would'', ''could'', ''should'', ''may'', ''might'', ''must'', ''shall'', ''can'',
     ''this'', ''that'', ''these'', ''those'', ''i'', ''you'', ''he'', ''she'', ''we'',
     ''they'', ''what'', ''which'', ''who'', ''whom'', ''when'', ''where'', ''why'', ''how'',
     ''all'', ''each'', ''every'', ''both'', ''few'', ''more'', ''most'', ''other'', ''some'',
     ''such'', ''no'', ''nor'', ''not'', ''only'', ''own'', ''same'', ''so'', ''than'', ''too'',
     ''very'', ''just'', ''about'', ''into'', ''through'', ''during'', ''before'', ''after'',
     ''above'', ''below'', ''between'', ''under'', ''again'', ''further'', ''then'', ''once'',
     ''here'', ''there'', ''any'', ''my'', ''your'', ''its'', ''our'', ''their'', ''out'', ''up'',
     ''down'', ''off'', ''over'', ''now'', ''new'', ''also'', ''get'', ''got'', ''getting'',
     ''show'', ''ask'', ''hn'', ''via'', ''using'', ''use'', ''used'', ''make'', ''made'',
     ''video'', ''pdf'', ''why'', ''how'', ''im'', ''i'' @ [CHR 0x27] @ ''m'', ''dont'',
     ''don'' @ [CHR 0x27] @ ''t'', ''cant'', ''can'' @ [CHR 0x27] @ ''t'', ''wont'',
     ''won'' @ [CHR 0x27] @ ''t'', ''like'', ''need'', ''want'', ''way'', ''one'', ''two'',
     ''first'', ''last'', ''year'', ''years'', ''day'', ''days'', ''time'', ''still'']"

definition TECH_KEYWORDS :: "string list" where
  "TECH_KEYWORDS =
    [''ai'', ''ml'', ''gpt'', ''llm'', ''openai'', ''chatgpt'', ''claude'', ''gemini'',
     ''rust'', ''python'', ''javascript'', ''typescript'', ''golang'', ''swift'',
     ''react'', ''vue'', ''angular'', ''node'', ''deno'', ''bun'',
     ''linux'', ''windows'', ''macos'', ''android'', ''ios'',
     ''aws'', ''azure'', ''gcp'', ''cloud'', ''kubernetes'', ''docker'',
     ''blockchain'', ''crypto'', ''bitcoin'', ''ethereum'', ''web3'',
     ''startup'', ''vc'', ''funding'', ''ipo'', ''acquisition'',
     ''apple'', ''google'', ''microsoft'', ''meta'', ''amazon'', ''nvidia'', ''tesla'',
     ''security'', ''privacy'', ''hack'', ''breach'', ''vulnerability'',
     ''opensource'', ''github'', ''gitlab'',
     ''database'', ''sql'', ''postgres'', ''mongodb'', ''redis'',
     ''api'', ''sdk'', ''framework'', ''library'']"

text \<open>
  \<open>toLowerCase\<close> on the code units below 256: the letters \<open>A\<close> to \<open>Z\<close> and the
  capital letters U+00C0 to U+00DE (without the multiplication sign U+00D7) move up
  by 32; every other code unit is its own lower case.
\<close>

definition toLowerCase_char :: "char \<Rightarrow> char" where
  "toLowerCase_char c =
     (let n = (of_char c :: nat)
      in if (65 \<le> n \<and> n \<le> 90) \<or> (192 \<le> n \<and> n \<le> 222 \<and> n \<noteq> 215)
         then char_of (n + 32) else c)"

definition toLowerCase :: "string \<Rightarrow> string" where
  "toLowerCase s = map toLowerCase_char s"

text \<open>The classes \<open>\w\<close>, \<open>\s\<close> and \<open>\d\<close> of a regular expression without the unicode flag.\<close>

definition is_word_char :: "char \<Rightarrow> bool" where
  "is_word_char c \<longleftrightarrow>
     c \<in> set ''abcdefghijklmnopqrstuvwxyzABCDEFGHIJKLMNOPQRSTUVWXYZ0123456789_''"

definition is_space_char :: "char \<Rightarrow> bool" where
  "is_space_char c \<longleftrightarrow> (of_char c :: nat) \<in> set [9, 10, 11, 12, 13, 32, 160]"

definition is_digit_char :: "char \<Rightarrow> bool" where
  "is_digit_char c \<longleftrightarrow> c \<in> set ''0123456789''"

text \<open>\<open>.replace(/[^\w\s-]/g, ' ')\<close>\<close>

definition replace_other :: "string \<Rightarrow> string" where
  "replace_other s =
     map (\<lambda>c. if is_word_char c \<or> is_space_char c \<or> c = CHR ''-'' then c else CHR '' '') s"

text \<open>
  \<open>.split(/\s+/)\<close>: the pieces between the maximal runs of white space. A run at the
  start or at the end leaves an empty piece there, and the empty string splits into one
  empty piece. \<open>cur\<close> is the piece being read, reversed.
\<close>

function split_spaces :: "string \<Rightarrow> string \<Rightarrow> string list" where
  "split_spaces cur [] = [rev cur]"
| "split_spaces cur (c # cs) =
     (if is_space_char c then rev cur # split_spaces [] (dropWhile is_space_char cs)
      else split_spaces (c # cur) cs)"
  by pat_completeness auto
termination
  by (relation "measure (\<lambda>(cur, s). length s)")
     (auto simp: le_imp_less_Suc length_dropWhile_le)

text \<open>The filter on the pieces; \<open>/^\d+$/\<close> matches a non-empty piece of digits only.\<close>

definition keep_word :: "string \<Rightarrow> bool" where
  "keep_word w \<longleftrightarrow>
     2 \<le> length w \<and> length w \<le> 20 \<and> w \<notin> set STOP_WORDS
     \<and> \<not> (w \<noteq> [] \<and> list_all is_digit_char w)"

definition title_words :: "string \<Rightarrow> string list" where
  "title_words t = filter keep_word (split_spaces [] (replace_other (toLowerCase t)))"

text \<open>\<open>new Set(words)\<close>: the words in the order of their first occurrence.\<close>

definition uniqueWords :: "string list \<Rightarrow> string list" where
  "uniqueWords ws = fold (\<lambda>w s. if w \<in> set s then s else s @ [w]) ws []"


text \<open>
  A story as the extractor reads it: the title (\<open>None\<close> when it is \<open>null\<close> or missing)
  and the points.
\<close>

record story =
  title :: "string option"
  points :: jsval

text \<open>\<open>story.points || 0\<close>: a falsy value gives 0, so the result is never \<open>NaN\<close>.\<close>

fun or_zero :: "jsval \<Rightarrow> real" where
  "or_zero (Num (Fin x)) = x"
| "or_zero _ = 0"

text \<open>
  The \<open>Map\<close> from a word to its object \<open>{count, points}\<close>, as an association list in
  insertion order: \<open>set\<close> on a key that is there replaces the value in place, on a new
  key it appends.
\<close>

type_synonym word_counts = "(string \<times> nat \<times> real) list"

fun map_set :: "('k \<times> 'v) list \<Rightarrow> 'k \<Rightarrow> 'v \<Rightarrow> ('k \<times> 'v) list" where
  "map_set [] k v = [(k, v)]"
| "map_set ((k', v') # m) k v =
     (if k' = k then (k, v) # m else (k', v') # map_set m k v)"

definition add_word :: "real \<Rightarrow> string \<Rightarrow> word_counts \<Rightarrow> word_counts" where
  "add_word pts w m =
     (case (case map_of m w of None \<Rightarrow> (0, 0) | Some cur \<Rightarrow> cur) of
        (c, p) \<Rightarrow> map_set m w (c + 1, p + pts))"

definition add_story :: "story \<Rightarrow> word_counts \<Rightarrow> word_counts" where
  "add_story s m =
     (case title s of
        None \<Rightarrow> m
      | Some t \<Rightarrow>
          if t = [] then m
          else fold (add_word (or_zero (points s))) (uniqueWords (title_words t)) m)"

definition wordCounts :: "story list \<Rightarrow> word_counts" where
  "wordCounts stories = fold add_story stories []"

text \<open>The unrounded \<open>weight\<close> of a word with its count and its sum of points.\<close>

definition topic_weight :: "string \<Rightarrow> nat \<Rightarrow> real \<Rightarrow> real" where
  "topic_weight w c p =
     (let avgPoints = p / real c;
          techBonus = (if w \<in> set TECH_KEYWORDS then 3 / 2 else 1)
      in real c * (1 + log 10 (max avgPoints 1)) * techBonus)"

text \<open>
  \<open>Math.round(x * 10) / 10\<close> on a number that is not \<open>NaN\<close>. The sums of points are
  sums of \<open>story.points || 0\<close> and the counts are at least 1, so no \<open>NaN\<close> and no
  division by zero arises in the extractor, and its numbers are modelled as reals.
\<close>

definition round1_real :: "real \<Rightarrow> real" where
  "round1_real x = of_int \<lfloor>x * 10 + 1 / 2\<rfloor> / 10"

record topic =
  word :: string
  count :: nat
  weight :: real
  isTech :: bool

definition to_topic :: "string \<times> nat \<times> real \<Rightarrow> topic" where
  "to_topic e =
     (case e of (w, c, p) \<Rightarrow>
        \<lparr>word = w, count = c, weight = round1_real (topic_weight w c p),
         isTech = (w \<in> set TECH_KEYWORDS)\<rparr>)"

text \<open>The topics after \<open>map\<close> and \<open>filter\<close>, in the insertion order of the \<open>Map\<close>.\<close>

definition candidate_topics :: "story list \<Rightarrow> topic list" where
  "candidate_topics stories = filter (\<lambda>t. 2 \<le> count t) (map to_topic (wordCounts stories))"

text \<open>
  \<open>sort((a, b) => b.weight - a.weight)\<close> is a stable sort by descending \<open>weight\<close>, the
  field of the topic; \<open>slice(0, limit)\<close> keeps the first \<open>limit\<close> topics. \<open>limit\<close> is
  a natural number, the maximal number of topics, or \<open>None\<close> when the argument is left
  out, and is then 15.
\<close>

definition extractTrendingTopics :: "story list \<Rightarrow> nat option \<Rightarrow> topic list" where
  "extractTrendingTopics stories limit =
     take (case limit of None \<Rightarrow> 15 | Some n \<Rightarrow> n)
       (sort_key (\<lambda>t. - weight t) (candidate_topics stories))"

text \<open>Whether the title of a story has the word among its tokens.\<close>

definition mentions :: "story \<Rightarrow> string \<Rightarrow> bool" where
  "mentions s w = (case title s of None \<Rightarrow> False | Some t \<Rightarrow> w \<in> set (title_words t))"

text \<open>The count that the \<open>Map\<close> holds for a word, 0 for a word that is not a key.\<close>

definition count_of :: "word_counts \<Rightarrow> string \<Rightarrow> nat" where
  "count_of m w = (case map_of m w of None \<Rightarrow> 0 | Some (c, p) \<Rightarrow> c)"

text \<open>
  Four batches of stories for the examples: a word five times in one title; two words
  whose weights differ before rounding and agree after it; two topics that the sort
  has to exchange; and a tech keyword and another word with the same count and points.
\<close>

definition repeated_word_batch :: "story list" where
  "repeated_word_batch =
     [\<lparr>title = Some ''Zig zig ZIG zig Zig: Rust is great'', points = Num (Fin 10)\<rparr>,
      \<lparr>title = Some ''Why Rust wins'', points = Num (Fin 10)\<rparr>,
      \<lparr>title = Some ''Learning Python'', points = Num (Fin 10)\<rparr>]"

definition rounding_tie_batch :: "story list" where
  "rounding_tie_batch =
     [\<lparr>title = Some ''Kernel'', points = Num (Fin 1000)\<rparr>,
      \<lparr>title = Some ''Kernel compiler'', points = Num (Fin 1000)\<rparr>,
      \<lparr>title = Some ''Compiler'', points = Num (Fin 1002)\<rparr>]"

definition reorder_batch :: "story list" where
  "reorder_batch =
     [\<lparr>title = Some ''Great news: Rust'', points = Num (Fin 10)\<rparr>,
      \<lparr>title = Some ''Rust is great'', points = Num (Fin 10)\<rparr>]"

definition tech_pair_batch :: "story list" where
  "tech_pair_batch =
     [\<lparr>title = Some ''Rust is great'', points = Num (Fin 100)\<rparr>,
      \<lparr>title = Some ''Great Rust'', points = Num (Fin 50)\<rparr>]"


section \<open>Properties of the hotness engine\<close>

subsection \<open>The local constants on a valid date\<close>

lemma hoursOld_at_valid:
  "hoursOld_at now (Some t) = Fin (max (real_of_int (now - t) / 3600000) (1 / 10))"
  by (simp add: hoursOld_at_def)

lemma hoursOld_at_invalid: "hoursOld_at now None = NaN"
  by (simp add: hoursOld_at_def)

lemma recencyMultiplier_at_Fin:
  "recencyMultiplier_at (Fin h) = Fin (max 1 (3 - h / 4))"
  by (simp add: recencyMultiplier_at_def)

lemma velocity_at_Fin:
  "h \<noteq> 0 \<Longrightarrow> velocity_at (Num (Fin p)) (Fin h) = Fin (p / h)"
  by (simp add: velocity_at_def)

lemma score_at_Fin:
  "h \<noteq> 0 \<Longrightarrow> score_at (Num (Fin p)) (Fin h) = Fin (p / h * max 1 (3 - h / 4))"
  by (simp add: score_at_def velocity_at_Fin recencyMultiplier_at_Fin)

lemma calculateHotness_DateObj:
  "calculateHotness now pts (DateObj t) =
     \<lparr>score = round1 (score_at pts (hoursOld_at now t)),
      velocity = round1 (velocity_at pts (hoursOld_at now t)),
      level = fst (classify (score_at pts (hoursOld_at now t))
                (velocity_at pts (hoursOld_at now t)) (hoursOld_at now t)),
      reason = snd (classify (score_at pts (hoursOld_at now t))
                (velocity_at pts (hoursOld_at now t)) (hoursOld_at now t)),
      hoursOld = Some (round1 (hoursOld_at now t))\<rparr>"
  by (simp add: calculateHotness_def Let_def split: prod.splits)

lemma score_at_valid_ex:
  "\<exists>s. score_at (Num (Fin p)) (hoursOld_at now (Some t)) = Fin s"
  by (simp add: hoursOld_at_valid score_at_def velocity_at_def recencyMultiplier_at_def)

lemma classify_Fin_level:
  "fst (classify (Fin s) v h) =
     (if 100 \<le> s then fire else if 50 \<le> s then hot else if 20 \<le> s then warm
      else if 5 \<le> s then mild else cold)"
  by (simp add: classify_def)

subsection \<open>Missing and invalid timestamps\<close>

text \<open>
  C1. The guard of \<open>calculateHotness\<close> tests \<open>!timestamp\<close> and \<open>instanceof Date\<close> only.
  An invalid \<open>Date\<close> passes both tests, so the sentinel is not returned for it: every
  number of the result is \<open>NaN\<close>, and the result has an \<open>hoursOld\<close> field. Only
  \<open>level\<close> and \<open>reason\<close> are those of the sentinel.
\<close>

theorem calculateHotness_invalid_date:
  "calculateHotness now pts (DateObj None) =
     \<lparr>score = NaN, velocity = NaN, level = cold, reason = None, hoursOld = Some NaN\<rparr>"
  by (simp add: calculateHotness_def hoursOld_at_def velocity_at_def score_at_def
      recencyMultiplier_at_def classify_def round1_def)

text \<open>
  C10. For a timestamp that is \<open>null\<close>, \<open>undefined\<close> or not a \<open>Date\<close>, the result is
  the object with the four fields \<open>score\<close>, \<open>velocity\<close>, \<open>level\<close> and \<open>reason\<close> and
  without \<open>hoursOld\<close>; on the normal path the field \<open>hoursOld\<close> is there.
\<close>

theorem calculateHotness_sentinel_shape:
  "calculateHotness now pts TsNull =
     \<lparr>score = Fin 0, velocity = Fin 0, level = cold, reason = None, hoursOld = None\<rparr>
   \<and> calculateHotness now pts TsUndefined =
     \<lparr>score = Fin 0, velocity = Fin 0, level = cold, reason = None, hoursOld = None\<rparr>
   \<and> calculateHotness now pts NotADate =
     \<lparr>score = Fin 0, velocity = Fin 0, level = cold, reason = None, hoursOld = None\<rparr>
   \<and> hoursOld (calculateHotness now pts (DateObj t)) = Some (round1 (hoursOld_at now t))"
  by (simp add: calculateHotness_DateObj) (simp add: calculateHotness_def)

subsection \<open>Thresholds\<close>

text \<open>
  C2. On a valid date and numeric points, the unrounded score is the product of the
  velocity and the recency multiplier, it is a number, and the level and the reason
  follow from it by the four thresholds 100, 50, 20 and 5, the first that matches:
  \<open>fire\<close> and \<open>hot\<close> with the flame reason, \<open>warm\<close> with the chart reason, \<open>mild\<close>
  with \<open>Fresh\<close> exactly when the unrounded \<open>hoursOld\<close> is below 2, and \<open>cold\<close> with no
  reason. The bound \<open>points >= 0\<close> of the claim is not needed.
\<close>

theorem calculateHotness_thresholds:
  fixes now t :: int and p :: real
  defines "h \<equiv> hoursOld_at now (Some t)"
  defines "v \<equiv> velocity_at (Num (Fin p)) h"
  defines "s \<equiv> score_at (Num (Fin p)) h"
  defines "r \<equiv> calculateHotness now (Num (Fin p)) (DateObj (Some t))"
  shows "s = js_mul v (recencyMultiplier_at h) \<and> s \<noteq> NaN
    \<and> (js_ge s (Fin 100) \<longrightarrow>
          level r = fire \<and> reason r = Some (PtsPerHr Flame (Math_round v)))
    \<and> (js_ge s (Fin 50) \<and> js_lt s (Fin 100) \<longrightarrow>
          level r = hot \<and> reason r = Some (PtsPerHr Flame (Math_round v)))
    \<and> (js_ge s (Fin 20) \<and> js_lt s (Fin 50) \<longrightarrow>
          level r = warm \<and> reason r = Some (PtsPerHr Chart (Math_round v)))
    \<and> (js_ge s (Fin 5) \<and> js_lt s (Fin 20) \<longrightarrow>
          level r = mild \<and> reason r = (if js_lt h (Fin 2) then Some Fresh else None))
    \<and> (js_lt s (Fin 5) \<longrightarrow> level r = cold \<and> reason r = None)"
proof -
  obtain s' where s': "s = Fin s'"
    using score_at_valid_ex [of p now t] by (auto simp: s_def h_def)
  have r: "level r = fst (classify s v h)" "reason r = snd (classify s v h)"
    by (simp_all add: r_def calculateHotness_DateObj s_def v_def h_def)
  have a: "s = js_mul v (recencyMultiplier_at h)"
    by (simp add: s_def v_def score_at_def)
  have b: "s \<noteq> NaN" by (simp add: s')
  have c: "(js_ge s (Fin 100) \<longrightarrow>
          fst (classify s v h) = fire
          \<and> snd (classify s v h) = Some (PtsPerHr Flame (Math_round v)))
    \<and> (js_ge s (Fin 50) \<and> js_lt s (Fin 100) \<longrightarrow>
          fst (classify s v h) = hot
          \<and> snd (classify s v h) = Some (PtsPerHr Flame (Math_round v)))
    \<and> (js_ge s (Fin 20) \<and> js_lt s (Fin 50) \<longrightarrow>
          fst (classify s v h) = warm
          \<and> snd (classify s v h) = Some (PtsPerHr Chart (Math_round v)))
    \<and> (js_ge s (Fin 5) \<and> js_lt s (Fin 20) \<longrightarrow>
          fst (classify s v h) = mild
          \<and> snd (classify s v h) = (if js_lt h (Fin 2) then Some Fresh else None))
    \<and> (js_lt s (Fin 5) \<longrightarrow> fst (classify s v h) = cold \<and> snd (classify s v h) = None)"
    unfolding s' by (simp add: classify_def)
  show ?thesis
    unfolding r using a b c by blast
qed

text \<open>
  Witness for C2, at an age of 1000 hours, where the multiplier is 1 and the score is
  \<open>points / 1000\<close>: both sides of each threshold (100 and 99.999, 50 and 49.999, 20 and
  19.999, 5 and 4.999), and a fresh story of one hour with score 5.5.
\<close>

theorem calculateHotness_thresholds_witness:
  "level (calculateHotness 3600000000 (Num (Fin 100000)) (DateObj (Some 0))) = fire
   \<and> reason (calculateHotness 3600000000 (Num (Fin 100000)) (DateObj (Some 0)))
       = Some (PtsPerHr Flame (Fin 100))
   \<and> level (calculateHotness 3600000000 (Num (Fin 99999)) (DateObj (Some 0))) = hot
   \<and> reason (calculateHotness 3600000000 (Num (Fin 99999)) (DateObj (Some 0)))
       = Some (PtsPerHr Flame (Fin 100))
   \<and> level (calculateHotness 3600000000 (Num (Fin 50000)) (DateObj (Some 0))) = hot
   \<and> level (calculateHotness 3600000000 (Num (Fin 49999)) (DateObj (Some 0))) = warm
   \<and> reason (calculateHotness 3600000000 (Num (Fin 49999)) (DateObj (Some 0)))
       = Some (PtsPerHr Chart (Fin 50))
   \<and> level (calculateHotness 3600000000 (Num (Fin 20000)) (DateObj (Some 0))) = warm
   \<and> level (calculateHotness 3600000000 (Num (Fin 19999)) (DateObj (Some 0))) = mild
   \<and> reason (calculateHotness 3600000000 (Num (Fin 19999)) (DateObj (Some 0))) = None
   \<and> level (calculateHotness 3600000000 (Num (Fin 5000)) (DateObj (Some 0))) = mild
   \<and> level (calculateHotness 3600000000 (Num (Fin 4999)) (DateObj (Some 0))) = cold
   \<and> reason (calculateHotness 3600000000 (Num (Fin 4999)) (DateObj (Some 0))) = None
   \<and> level (calculateHotness 3600000 (Num (Fin 2)) (DateObj (Some 0))) = mild
   \<and> reason (calculateHotness 3600000 (Num (Fin 2)) (DateObj (Some 0))) = Some Fresh"
  using calculateHotness_thresholds [of 100000 3600000000 0]
    calculateHotness_thresholds [of 99999 3600000000 0]
    calculateHotness_thresholds [of 50000 3600000000 0]
    calculateHotness_thresholds [of 49999 3600000000 0]
    calculateHotness_thresholds [of 20000 3600000000 0]
    calculateHotness_thresholds [of 19999 3600000000 0]
    calculateHotness_thresholds [of 5000 3600000000 0]
    calculateHotness_thresholds [of 4999 3600000000 0]
    calculateHotness_thresholds [of 2 3600000 0]
  by (simp add: hoursOld_at_def velocity_at_def score_at_def recencyMultiplier_at_def)

subsection \<open>A story posted just now\<close>

text \<open>
  Counterexample to C3: at a timestamp equal to the current time the recency multiplier
  is \<open>3 - 0.1 / 4 = 2.975\<close>, not 3, since \<open>hoursOld\<close> has already been raised to 0.1.
\<close>

theorem calculateHotness_now_multiplier_counterexample:
  "recencyMultiplier_at (hoursOld_at 1700000000000 (Some 1700000000000)) = Fin (119 / 40)
   \<and> recencyMultiplier_at (hoursOld_at 1700000000000 (Some 1700000000000)) \<noteq> Fin 3"
  by (simp add: hoursOld_at_def recencyMultiplier_at_def)

lemma recencyMultiplier_real_bound:
  fixes x :: real
  shows "max 1 (3 - max x (1 / 10) / 4) \<le> 119 / 40"
proof -
  define y where "y = max x (1 / 10)"
  have "1 / 10 \<le> y" by (simp add: y_def)
  then have "3 - y / 4 \<le> 119 / 40" by linarith
  then have "max 1 (3 - y / 4) \<le> 119 / 40" unfolding max_def by simp
  then show ?thesis by (simp only: y_def)
qed

text \<open>
  C3, amended. At a timestamp equal to the current time the unrounded \<open>hoursOld\<close> is
  the floor 0.1, the returned \<open>hoursOld\<close> is 0.1 as well, and the recency multiplier is
  2.975. No valid timestamp has a larger multiplier, so 2.975 is the maximum that the
  function reaches; the score is then \<open>points / 0.1 * 2.975\<close>.
\<close>

theorem calculateHotness_now:
  "hoursOld_at now (Some now) = Fin (1 / 10)
   \<and> hoursOld (calculateHotness now pts (DateObj (Some now))) = Some (Fin (1 / 10))
   \<and> recencyMultiplier_at (hoursOld_at now (Some now)) = Fin (119 / 40)
   \<and> js_ge (Fin (119 / 40)) (recencyMultiplier_at (hoursOld_at now' (Some t)))
   \<and> score_at (Num (Fin p)) (hoursOld_at now (Some now)) = Fin (p / (1 / 10) * (119 / 40))"
proof -
  have a: "hoursOld_at now (Some now) = Fin (1 / 10)"
    by (simp add: hoursOld_at_valid)
  have b: "hoursOld (calculateHotness now pts (DateObj (Some now))) = Some (Fin (1 / 10))"
    by (simp add: calculateHotness_DateObj a round1_def)
  have c: "recencyMultiplier_at (hoursOld_at now (Some now)) = Fin (119 / 40)"
    by (simp add: a recencyMultiplier_at_Fin)
  have d: "js_ge (Fin (119 / 40)) (recencyMultiplier_at (hoursOld_at now' (Some t)))"
    using recencyMultiplier_real_bound [of "real_of_int (now' - t) / 3600000"]
    by (simp only: hoursOld_at_valid recencyMultiplier_at_Fin js_ge.simps)
  have e: "score_at (Num (Fin p)) (hoursOld_at now (Some now)) = Fin (p / (1 / 10) * (119 / 40))"
    by (simp add: a score_at_Fin)
  show ?thesis using a b c d e by blast
qed

subsection \<open>The score as a function of the age\<close>

text \<open>
  Counterexample to C4: with 10 points, a story of age 0 and a story of age 3 minutes
  both have \<open>hoursOld = 0.1\<close> and the same unrounded score 297.5, so the score does not
  strictly decrease between the ages 0 and 0.1 hours.
\<close>

theorem score_age_counterexample:
  "score_at (Num (Fin 10)) (hoursOld_at 1700000000000 (Some 1700000000000)) = Fin (595 / 2)
   \<and> score_at (Num (Fin 10)) (hoursOld_at 1700000000000 (Some (1700000000000 - 180000)))
       = Fin (595 / 2)
   \<and> \<not> js_lt (score_at (Num (Fin 10)) (hoursOld_at 1700000000000 (Some (1700000000000 - 180000))))
        (score_at (Num (Fin 10)) (hoursOld_at 1700000000000 (Some 1700000000000)))"
  by (simp add: hoursOld_at_valid score_at_Fin)

lemma score_real_decreasing:
  fixes p h1 h2 :: real
  assumes "0 < p" "0 < h1" "h1 < h2"
  shows "p / h2 * max 1 (3 - h2 / 4) < p / h1 * max 1 (3 - h1 / 4)"
proof -
  have a: "p / h2 < p / h1"
    using assms by (simp add: divide_strict_left_mono)
  have b: "max 1 (3 - h2 / 4) \<le> max 1 (3 - h1 / 4)"
    using assms by simp
  have c: "0 < max 1 (3 - h2 / 4)" by simp
  have "p / h2 * max 1 (3 - h2 / 4) < p / h1 * max 1 (3 - h2 / 4)"
    using a c by (rule mult_strict_right_mono)
  also have "\<dots> \<le> p / h1 * max 1 (3 - h1 / 4)"
    using b assms by (intro mult_left_mono) simp_all
  finally show ?thesis .
qed

text \<open>
  C4, amended. Ages are in milliseconds, the timestamp being \<open>now - a\<close>. For positive
  points the unrounded score strictly decreases as the age increases from 0.1 hours
  (360000 ms) on, hence between 0.1 and 8 hours; from 8 hours (28800000 ms) on the
  multiplier is 1 and the score is the velocity, \<open>points / hoursOld\<close>; and up to the age
  of 0.1 hours, for any points, \<open>hoursOld\<close> is the floor 0.1 and the score is the constant
  \<open>points / 0.1 * 2.975\<close>.
\<close>

theorem score_age:
  fixes now a1 a2 a a0 :: int and p :: real
  shows "(0 < p \<and> 360000 \<le> a1 \<and> a1 < a2 \<longrightarrow>
            js_lt (score_at (Num (Fin p)) (hoursOld_at now (Some (now - a2))))
                  (score_at (Num (Fin p)) (hoursOld_at now (Some (now - a1)))))
       \<and> (28800000 \<le> a \<longrightarrow>
            recencyMultiplier_at (hoursOld_at now (Some (now - a))) = Fin 1
            \<and> velocity_at (Num (Fin p)) (hoursOld_at now (Some (now - a)))
                = Fin (p / (real_of_int a / 3600000))
            \<and> score_at (Num (Fin p)) (hoursOld_at now (Some (now - a)))
                = velocity_at (Num (Fin p)) (hoursOld_at now (Some (now - a))))
       \<and> (a0 \<le> 360000 \<longrightarrow>
            hoursOld_at now (Some (now - a0)) = Fin (1 / 10)
            \<and> score_at (Num (Fin p)) (hoursOld_at now (Some (now - a0)))
                = Fin (p / (1 / 10) * (119 / 40)))"
proof (intro conjI impI)
  assume h: "0 < p \<and> 360000 \<le> a1 \<and> a1 < a2"
  define h1 where "h1 = real_of_int a1 / 3600000"
  define h2 where "h2 = real_of_int a2 / 3600000"
  have h1: "1 / 10 \<le> h1" using h by (simp add: h1_def)
  have h12: "h1 < h2" using h by (simp add: h1_def h2_def divide_strict_right_mono)
  have e1: "hoursOld_at now (Some (now - a1)) = Fin h1"
    using h1 by (simp add: hoursOld_at_valid h1_def max_def)
  have e2: "hoursOld_at now (Some (now - a2)) = Fin h2"
    using h1 h12 by (simp add: hoursOld_at_valid h2_def max_def)
  have "p / h2 * max 1 (3 - h2 / 4) < p / h1 * max 1 (3 - h1 / 4)"
    using h h1 h12 by (intro score_real_decreasing) simp_all
  then show "js_lt (score_at (Num (Fin p)) (hoursOld_at now (Some (now - a2))))
                  (score_at (Num (Fin p)) (hoursOld_at now (Some (now - a1))))"
    using h1 h12 by (simp add: e1 e2 score_at_Fin)
next
  assume h: "28800000 \<le> a"
  define h8 where "h8 = real_of_int a / 3600000"
  have h8: "8 \<le> h8" using h by (simp add: h8_def)
  have e: "hoursOld_at now (Some (now - a)) = Fin h8"
    using h8 by (simp add: hoursOld_at_valid h8_def max_def)
  show "recencyMultiplier_at (hoursOld_at now (Some (now - a))) = Fin 1"
    using h8 by (simp add: e recencyMultiplier_at_Fin max_def)
  show "velocity_at (Num (Fin p)) (hoursOld_at now (Some (now - a)))
          = Fin (p / (real_of_int a / 3600000))"
    using h8 by (simp add: e velocity_at_Fin h8_def)
  show "score_at (Num (Fin p)) (hoursOld_at now (Some (now - a)))
          = velocity_at (Num (Fin p)) (hoursOld_at now (Some (now - a)))"
    using h8 by (simp add: e velocity_at_Fin score_at_Fin max_def)
next
  assume h: "a0 \<le> 360000"
  have "real_of_int a0 \<le> 360000" using h by linarith
  then have "real_of_int a0 / 3600000 \<le> 1 / 10" by simp
  then show e: "hoursOld_at now (Some (now - a0)) = Fin (1 / 10)"
    by (simp add: hoursOld_at_valid max_def)
  show "score_at (Num (Fin p)) (hoursOld_at now (Some (now - a0)))
          = Fin (p / (1 / 10) * (119 / 40))"
    by (simp add: e score_at_Fin)
qed

text \<open>
  Witness for C4: 10 points at the ages of one and two hours, at ten hours, where the
  score is the velocity 1, and at three minutes, where the score is that of age 0, 297.5.
\<close>

theorem score_age_witness:
  "js_lt (score_at (Num (Fin 10)) (hoursOld_at 1700000000000 (Some (1700000000000 - 7200000))))
         (score_at (Num (Fin 10)) (hoursOld_at 1700000000000 (Some (1700000000000 - 3600000))))
   \<and> recencyMultiplier_at (hoursOld_at 1700000000000 (Some (1700000000000 - 36000000))) = Fin 1
   \<and> score_at (Num (Fin 10)) (hoursOld_at 1700000000000 (Some (1700000000000 - 36000000)))
       = Fin 1
   \<and> score_at (Num (Fin 10)) (hoursOld_at 1700000000000 (Some (1700000000000 - 180000)))
       = Fin (595 / 2)"
proof -
  note t = score_age [of 10 3600000 7200000 1700000000000 36000000 180000]
  have "0 < (10 :: real) \<and> 360000 \<le> (3600000 :: int) \<and> (3600000 :: int) < 7200000"
    by simp
  with t have a:
    "js_lt (score_at (Num (Fin 10)) (hoursOld_at 1700000000000 (Some (1700000000000 - 7200000))))
       (score_at (Num (Fin 10)) (hoursOld_at 1700000000000 (Some (1700000000000 - 3600000))))"
    by blast
  have "28800000 \<le> (36000000 :: int)" by simp
  with t have b:
    "recencyMultiplier_at (hoursOld_at 1700000000000 (Some (1700000000000 - 36000000))) = Fin 1"
    "velocity_at (Num (Fin 10)) (hoursOld_at 1700000000000 (Some (1700000000000 - 36000000)))
       = Fin (10 / (real_of_int 36000000 / 3600000))"
    "score_at (Num (Fin 10)) (hoursOld_at 1700000000000 (Some (1700000000000 - 36000000)))
       = velocity_at (Num (Fin 10)) (hoursOld_at 1700000000000 (Some (1700000000000 - 36000000)))"
    by blast+
  have "(180000 :: int) \<le> 360000" by simp
  with t have c:
    "score_at (Num (Fin 10)) (hoursOld_at 1700000000000 (Some (1700000000000 - 180000)))
       = Fin (10 / (1 / 10) * (119 / 40))"
    by blast
  have b': "score_at (Num (Fin 10)) (hoursOld_at 1700000000000 (Some (1700000000000 - 36000000)))
       = Fin 1"
    unfolding b(3) b(2) by simp
  have c': "score_at (Num (Fin 10)) (hoursOld_at 1700000000000 (Some (1700000000000 - 180000)))
       = Fin (595 / 2)"
    unfolding c by simp
  show ?thesis using a b(1) b' c' by blast
qed

subsection \<open>Level, reason and the returned score\<close>

text \<open>
  Counterexample to C7: at an age of 100 hours, 10000 points and 9996 points both return
  the score 100 (the unrounded scores are 100 and 99.96), with levels \<open>fire\<close> and \<open>hot\<close>.
  The level is therefore not a function of the returned score.
\<close>

theorem level_of_returned_score_counterexample:
  "score (calculateHotness 360000000 (Num (Fin 10000)) (DateObj (Some 0))) = Fin 100
   \<and> score (calculateHotness 360000000 (Num (Fin 9996)) (DateObj (Some 0))) = Fin 100
   \<and> level (calculateHotness 360000000 (Num (Fin 10000)) (DateObj (Some 0))) = fire
   \<and> level (calculateHotness 360000000 (Num (Fin 9996)) (DateObj (Some 0))) = hot"
  by (simp add: calculateHotness_DateObj hoursOld_at_def velocity_at_def score_at_def
      recencyMultiplier_at_def classify_def round1_def)

lemma level_rank_mono:
  "js_ge s1 s2 \<Longrightarrow>
   level_rank (fst (classify s2 v2 h2)) \<le> level_rank (fst (classify s1 v1 h1))"
  by (cases s1; cases s2) (simp_all add: classify_Fin_level)

lemma round1_gt_imp_ge:
  assumes "js_gt (round1 s1) (round1 s2)"
  shows "js_ge s1 s2"
proof (cases s1)
  case NaN
  with assms show ?thesis by (simp add: round1_def)
next
  case s1: (Fin x1)
  show ?thesis
  proof (cases s2)
    case NaN
    with assms s1 show ?thesis by (simp add: round1_def)
  next
    case s2: (Fin x2)
    have "\<lfloor>x2 * 10 + 1 / 2\<rfloor> < \<lfloor>x1 * 10 + 1 / 2\<rfloor>"
      using assms by (simp add: round1_def s1 s2)
    then have "\<not> x1 * 10 + 1 / 2 \<le> x2 * 10 + 1 / 2"
      using floor_mono [of "x1 * 10 + 1 / 2" "x2 * 10 + 1 / 2"] by linarith
    then show ?thesis by (simp add: s1 s2)
  qed
qed

lemma classify_reason:
  "snd (classify s v h) \<noteq> None \<Longrightarrow>
   fst (classify s v h) \<in> {fire, hot, warm}
   \<or> (fst (classify s v h) = mild \<and> js_lt h (Fin 2))"
  by (simp add: classify_def split: if_splits)

text \<open>
  C7, amended. For two calls on valid dates: the level is a function of the unrounded
  score and monotonic in it; a larger returned score never has a lower level; a reason
  is present only for \<open>fire\<close>, \<open>hot\<close> and \<open>warm\<close>, or for \<open>mild\<close> with the unrounded
  \<open>hoursOld\<close> below 2; and the returned \<open>score\<close>, \<open>velocity\<close> and \<open>hoursOld\<close> are the
  unrounded values rounded once, at the end.
\<close>

theorem level_of_score:
  fixes now1 now2 t1 t2 :: int and p1 p2 :: jsval
  defines "h1 \<equiv> hoursOld_at now1 (Some t1)"
  defines "h2 \<equiv> hoursOld_at now2 (Some t2)"
  defines "s1 \<equiv> score_at p1 h1"
  defines "s2 \<equiv> score_at p2 h2"
  defines "r1 \<equiv> calculateHotness now1 p1 (DateObj (Some t1))"
  defines "r2 \<equiv> calculateHotness now2 p2 (DateObj (Some t2))"
  shows "(s1 = s2 \<longrightarrow> level r1 = level r2)
    \<and> (js_ge s1 s2 \<longrightarrow> level_rank (level r2) \<le> level_rank (level r1))
    \<and> (js_gt (score r1) (score r2) \<longrightarrow> level_rank (level r2) \<le> level_rank (level r1))
    \<and> (reason r1 \<noteq> None \<longrightarrow>
          level r1 \<in> {fire, hot, warm} \<or> (level r1 = mild \<and> js_lt h1 (Fin 2)))
    \<and> score r1 = round1 s1
    \<and> velocity r1 = round1 (velocity_at p1 h1)
    \<and> hoursOld r1 = Some (round1 h1)"
proof -
  have f: "level r1 = fst (classify s1 (velocity_at p1 h1) h1)"
    "level r2 = fst (classify s2 (velocity_at p2 h2) h2)"
    "reason r1 = snd (classify s1 (velocity_at p1 h1) h1)"
    "score r1 = round1 s1" "score r2 = round1 s2"
    "velocity r1 = round1 (velocity_at p1 h1)"
    "hoursOld r1 = Some (round1 h1)"
    by (simp_all add: r1_def r2_def s1_def s2_def h1_def h2_def calculateHotness_DateObj)
  have a: "s1 = s2 \<longrightarrow> level r1 = level r2"
    unfolding f by (simp add: classify_def)
  have b: "js_ge s1 s2 \<longrightarrow> level_rank (level r2) \<le> level_rank (level r1)"
    unfolding f by (simp add: level_rank_mono)
  have c: "js_gt (score r1) (score r2) \<longrightarrow> level_rank (level r2) \<le> level_rank (level r1)"
    unfolding f by (simp add: level_rank_mono round1_gt_imp_ge)
  have d: "reason r1 \<noteq> None \<longrightarrow>
          level r1 \<in> {fire, hot, warm} \<or> (level r1 = mild \<and> js_lt h1 (Fin 2))"
    unfolding f using classify_reason by blast
  show ?thesis using a b c d f(4,6,7) by blast
qed

text \<open>
  Witness for C7: 10000 against 5000 and 9996 points at an age of 100 hours, and the
  fresh story of one hour with 2 points.
\<close>

theorem level_of_score_witness:
  "level (calculateHotness 360000000 (Num (Fin 10000)) (DateObj (Some 0))) = fire
   \<and> level (calculateHotness 360000000 (Num (Fin 9996)) (DateObj (Some 0))) = hot
   \<and> js_gt (score (calculateHotness 360000000 (Num (Fin 10000)) (DateObj (Some 0))))
        (score (calculateHotness 360000000 (Num (Fin 5000)) (DateObj (Some 0))))
   \<and> level_rank (level (calculateHotness 360000000 (Num (Fin 5000)) (DateObj (Some 0))))
        \<le> level_rank (level (calculateHotness 360000000 (Num (Fin 10000)) (DateObj (Some 0))))
   \<and> reason (calculateHotness 3600000 (Num (Fin 2)) (DateObj (Some 0))) = Some Fresh
   \<and> level (calculateHotness 3600000 (Num (Fin 2)) (DateObj (Some 0))) = mild
   \<and> js_lt (hoursOld_at 3600000 (Some 0)) (Fin 2)"
  using level_of_score [of "Num (Fin 10000)" 360000000 0 "Num (Fin 5000)" 360000000 0]
    level_of_score [of "Num (Fin 2)" 3600000 0 "Num (Fin 2)" 3600000 0]
    level_of_score [of "Num (Fin 10000)" 360000000 0 "Num (Fin 9996)" 360000000 0]
  by (simp add: calculateHotness_DateObj hoursOld_at_def velocity_at_def score_at_def
      recencyMultiplier_at_def classify_def round1_def)

section \<open>Properties of the discussion intensity\<close>

text \<open>
  C8. A falsy comment count or one below 10 gives \<open>null\<close>. Otherwise, for numbers \<open>c\<close>
  and \<open>p\<close> and the ratio \<open>c / p\<close>, taken as 0 when \<open>p <= 0\<close>: 200 comments or more are
  \<open>intense\<close>; else a ratio above 2 with 50 comments or more is \<open>controversial\<close>; else 100
  comments or more are \<open>active\<close>; else the result is \<open>null\<close>.
\<close>

theorem calculateDiscussionIntensity_cases:
  fixes c p :: real and cc pts :: jsval
  defines "ratio \<equiv> (if p \<le> 0 then 0 else c / p)"
  defines "d \<equiv> calculateDiscussionIntensity (Num (Fin c)) (Num (Fin p))"
  shows "(falsy cc \<or> js_lt (to_number cc) (Fin 10) \<longrightarrow>
            calculateDiscussionIntensity cc pts = None)
    \<and> (200 \<le> c \<longrightarrow> d = Some \<lparr>d_level = intense, d_reason = Comments (Fin c)\<rparr>)
    \<and> (10 \<le> c \<and> c < 200 \<and> 2 < ratio \<and> 50 \<le> c \<longrightarrow>
          d = Some \<lparr>d_level = controversial, d_reason = Heated_debate\<rparr>)
    \<and> (10 \<le> c \<and> c < 200 \<and> \<not> (2 < ratio \<and> 50 \<le> c) \<and> 100 \<le> c \<longrightarrow>
          d = Some \<lparr>d_level = active, d_reason = Discussing (Fin c)\<rparr>)
    \<and> (10 \<le> c \<and> c < 100 \<and> \<not> (2 < ratio \<and> 50 \<le> c) \<longrightarrow> d = None)"
  unfolding ratio_def d_def
  by (auto simp add: calculateDiscussionIntensity_def Let_def)

text \<open>
  Witness for C8: the four calls of the specification, (9, 100), (250, 100), (60, 20) and
  (120, 1000), and a zero count, a \<open>null\<close> count and 60 comments on 1000 points.
\<close>

theorem calculateDiscussionIntensity_cases_witness:
  "calculateDiscussionIntensity (Num (Fin 9)) (Num (Fin 100)) = None
   \<and> calculateDiscussionIntensity (Num (Fin 0)) (Num (Fin 100)) = None
   \<and> calculateDiscussionIntensity Null (Num (Fin 100)) = None
   \<and> calculateDiscussionIntensity (Num (Fin 250)) (Num (Fin 100))
       = Some \<lparr>d_level = intense, d_reason = Comments (Fin 250)\<rparr>
   \<and> calculateDiscussionIntensity (Num (Fin 60)) (Num (Fin 20))
       = Some \<lparr>d_level = controversial, d_reason = Heated_debate\<rparr>
   \<and> calculateDiscussionIntensity (Num (Fin 120)) (Num (Fin 1000))
       = Some \<lparr>d_level = active, d_reason = Discussing (Fin 120)\<rparr>
   \<and> calculateDiscussionIntensity (Num (Fin 60)) (Num (Fin 1000)) = None"
  using calculateDiscussionIntensity_cases [of "Num (Fin 9)" "Num (Fin 100)" 250 100]
    calculateDiscussionIntensity_cases [of "Num (Fin 0)" "Num (Fin 100)" 60 20]
    calculateDiscussionIntensity_cases [of Null "Num (Fin 100)" 120 1000]
    calculateDiscussionIntensity_cases [of Null "Num (Fin 100)" 60 1000]
  by simp


section \<open>Properties of the topic extractor\<close>

subsection \<open>The word counts\<close>

lemma title_words_Nil: "title_words [] = []"
  by code_simp

lemma set_uniqueWords_aux:
  "set (fold (\<lambda>w s. if w \<in> set s then s else s @ [w]) ws acc) = set acc \<union> set ws"
  by (induction ws arbitrary: acc) auto

lemma distinct_uniqueWords_aux:
  "distinct acc \<Longrightarrow> distinct (fold (\<lambda>w s. if w \<in> set s then s else s @ [w]) ws acc)"
  by (induction ws arbitrary: acc) auto

lemma set_uniqueWords: "set (uniqueWords ws) = set ws"
  by (simp add: uniqueWords_def set_uniqueWords_aux)

lemma distinct_uniqueWords: "distinct (uniqueWords ws)"
  by (simp add: uniqueWords_def distinct_uniqueWords_aux)

lemma map_of_map_set: "map_of (map_set m k v) = (map_of m)(k \<mapsto> v)"
  by (induction m) auto

lemma keys_map_set:
  "map fst (map_set m k v) = (if k \<in> fst ` set m then map fst m else map fst m @ [k])"
  by (induction m) force+

lemma distinct_map_set: "distinct (map fst m) \<Longrightarrow> distinct (map fst (map_set m k v))"
  by (simp add: keys_map_set)

lemma count_of_add_word:
  "count_of (add_word pts w m) w' = count_of m w' + (if w' = w then 1 else 0)"
  by (auto simp: count_of_def add_word_def map_of_map_set split: option.splits prod.splits)

lemma distinct_add_word: "distinct (map fst m) \<Longrightarrow> distinct (map fst (add_word pts w m))"
  by (simp add: add_word_def distinct_map_set split: option.splits prod.splits)

lemma count_of_fold_add_word:
  "distinct ws \<Longrightarrow>
   count_of (fold (add_word pts) ws m) w' = count_of m w' + (if w' \<in> set ws then 1 else 0)"
  by (induction ws arbitrary: m) (auto simp: count_of_add_word)

lemma distinct_fold_add_word:
  "distinct (map fst m) \<Longrightarrow> distinct (map fst (fold (add_word pts) ws m))"
  by (induction ws arbitrary: m) (auto simp: distinct_add_word)

lemma count_of_add_story:
  "count_of (add_story s m) w = count_of m w + (if mentions s w then 1 else 0)"
  by (auto simp: add_story_def mentions_def count_of_fold_add_word distinct_uniqueWords
      set_uniqueWords title_words_Nil split: option.splits)

lemma distinct_add_story: "distinct (map fst m) \<Longrightarrow> distinct (map fst (add_story s m))"
  by (simp add: add_story_def distinct_fold_add_word split: option.splits)

lemma count_of_fold_add_story:
  "count_of (fold add_story ss m) w = count_of m w + length (filter (\<lambda>s. mentions s w) ss)"
  by (induction ss arbitrary: m) (auto simp: count_of_add_story)

lemma distinct_fold_add_story:
  "distinct (map fst m) \<Longrightarrow> distinct (map fst (fold add_story ss m))"
  by (induction ss arbitrary: m) (auto simp: distinct_add_story)

lemma count_of_wordCounts:
  "count_of (wordCounts stories) w = length (filter (\<lambda>s. mentions s w) stories)"
  unfolding wordCounts_def count_of_fold_add_story by (simp add: count_of_def)

lemma distinct_wordCounts: "distinct (map fst (wordCounts stories))"
  by (simp add: wordCounts_def distinct_fold_add_story)

lemma wordCounts_entry:
  assumes "(w, c, p) \<in> set (wordCounts stories)"
  shows "c = length (filter (\<lambda>s. mentions s w) stories)"
proof -
  have "map_of (wordCounts stories) w = Some (c, p)"
    using assms distinct_wordCounts by simp
  then have "count_of (wordCounts stories) w = c"
    by (simp add: count_of_def)
  then show ?thesis by (simp add: count_of_wordCounts)
qed

lemma extractTrendingTopics_subset:
  "set (extractTrendingTopics stories limit) \<subseteq> set (candidate_topics stories)"
  unfolding extractTrendingTopics_def
  using set_take_subset [of _ "sort_key (\<lambda>t. - weight t) (candidate_topics stories)"]
  by simp

lemma candidate_topics_entry:
  assumes "t \<in> set (candidate_topics stories)"
  shows "\<exists>p. (word t, count t, p) \<in> set (wordCounts stories)
           \<and> weight t = round1_real (topic_weight (word t) (count t) p)
           \<and> isTech t = (word t \<in> set TECH_KEYWORDS) \<and> 2 \<le> count t"
  using assms by (auto simp: candidate_topics_def to_topic_def)

subsection \<open>Evaluation of the example batches\<close>

lemma repeated_word_tokens:
  "uniqueWords [''zig'', ''zig'', ''zig'', ''zig'', ''zig'', ''rust'', ''great''] = [''zig'', ''rust'', ''great'']"
  "uniqueWords [''rust'', ''wins''] = [''rust'', ''wins'']"
  "uniqueWords [''learning'', ''python''] = [''learning'', ''python'']"
  "title_words ''Zig zig ZIG zig Zig: Rust is great'' = [''zig'', ''zig'', ''zig'', ''zig'', ''zig'', ''rust'', ''great'']"
  "title_words ''Why Rust wins'' = [''rust'', ''wins'']"
  "title_words ''Learning Python'' = [''learning'', ''python'']"
  by code_simp+

lemma tech_members:
  "''rust'' \<in> set TECH_KEYWORDS" "''zig'' \<notin> set TECH_KEYWORDS"
  "''great'' \<notin> set TECH_KEYWORDS"  "''python'' \<in> set TECH_KEYWORDS"
  by code_simp+

lemma repeated_word_counts:
  "wordCounts repeated_word_batch =
     [(''zig'', 1, 10), (''rust'', 2, 20), (''great'', 1, 10), (''wins'', 1, 10),
      (''learning'', 1, 10), (''python'', 1, 10)]"
  by (simp add: wordCounts_def repeated_word_batch_def add_story_def repeated_word_tokens
      add_word_def)

lemma repeated_word_topics:
  "extractTrendingTopics repeated_word_batch None =
     [\<lparr>word = ''rust'', count = 2, weight = 6, isTech = True\<rparr>]"
  by (simp add: extractTrendingTopics_def candidate_topics_def repeated_word_counts
      to_topic_def topic_weight_def round1_real_def tech_members)

lemma repeated_word_mentions:
  "filter (\<lambda>s. mentions s ''rust'') repeated_word_batch = take 2 repeated_word_batch"
  "filter (\<lambda>s. mentions s ''zig'') repeated_word_batch = take 1 repeated_word_batch"
  by (simp_all add: repeated_word_batch_def mentions_def repeated_word_tokens)

lemma log10_less_ratio:
  fixes x :: real and m n :: nat
  assumes "0 < x" "0 < n" "x ^ n < 10 ^ m"
  shows "log 10 x < real m / real n"
proof -
  have n0: "n \<noteq> 0" using assms by simp
  define b :: real where "b = 10 powr (real m / real n)"
  have b: "0 < b" by (simp add: b_def)
  have "b ^ n = b powr real n" using b by (simp add: powr_realpow)
  also have "\<dots> = 10 powr real m" using n0 by (simp add: b_def powr_powr)
  also have "\<dots> = 10 ^ m" by (simp add: powr_realpow)
  finally have "x ^ n < b ^ n" using assms by simp
  then have "x < b" using b by (intro power_less_imp_less_base [of x n b]) simp_all
  then have "log 10 x < log 10 b" using assms b by simp
  then show ?thesis by (simp add: b_def)
qed

lemma log10_ge_ratio:
  fixes x :: real and m n :: nat
  assumes "0 < x" "0 < n" "10 ^ m \<le> x ^ n"
  shows "real m / real n \<le> log 10 x"
proof -
  have n0: "n \<noteq> 0" using assms by simp
  define b :: real where "b = 10 powr (real m / real n)"
  have b: "0 < b" by (simp add: b_def)
  have "b ^ n = b powr real n" using b by (simp add: powr_realpow)
  also have "\<dots> = 10 powr real m" using n0 by (simp add: b_def powr_powr)
  also have "\<dots> = 10 ^ m" by (simp add: powr_realpow)
  finally have "b ^ n \<le> x ^ n" using assms by simp
  then have "b \<le> x" using assms by (intro power_le_imp_le_base [of b "n - 1" x]) simp_all
  then have "log 10 b \<le> log 10 x" using assms b by simp
  then show ?thesis by (simp add: b_def)
qed

lemma log10_1000: "log 10 1000 = (3::real)"
proof -
  have "log 10 ((10::real) ^ 3) = real 3" by (rule log_pow_cancel) simp_all
  then show ?thesis by simp
qed

lemma log10_tie_bounds: "3 < log 10 (1001) \<and> log 10 (1001) < (121 / 40 :: real)"
proof
  have "log 10 1000 < log 10 (1001 :: real)" by simp
  then show "3 < log 10 (1001 :: real)" by (simp only: log10_1000)
  have "log 10 (1001 :: real) < real 121 / real 40"
    by (rule log10_less_ratio) simp_all
  then show "log 10 (1001) < (121 / 40 :: real)" by simp
qed

lemma tie_tokens:
  "title_words ''Kernel'' = [''kernel'']"
  "title_words ''Kernel compiler'' = [''kernel'', ''compiler'']"
  "title_words ''Compiler'' = [''compiler'']"
  "uniqueWords [''kernel''] = [''kernel'']"
  "uniqueWords [''kernel'', ''compiler''] = [''kernel'', ''compiler'']"
  "uniqueWords [''compiler''] = [''compiler'']"
  "''kernel'' \<notin> set TECH_KEYWORDS" "''compiler'' \<notin> set TECH_KEYWORDS"
  by code_simp+

lemma tie_counts:
  "wordCounts rounding_tie_batch = [(''kernel'', 2, 2000), (''compiler'', 2, 2002)]"
  by (simp add: wordCounts_def rounding_tie_batch_def add_story_def tie_tokens add_word_def)

lemma tie_weights:
  "topic_weight ''kernel'' 2 2000 = 8"
  "topic_weight ''compiler'' 2 2002 = 2 * (1 + log 10 (1001))"
  by (simp_all add: topic_weight_def tie_tokens log10_1000)

lemma tie_round: "round1_real (2 * (1 + log 10 (1001))) = 8"
proof -
  have "of_int 80 \<le> 2 * (1 + log 10 1001) * 10 + 1 / 2"
    "2 * (1 + log 10 1001) * 10 + 1 / 2 < of_int 80 + (1 :: real)"
    using log10_tie_bounds by simp_all
  then have "\<lfloor>2 * (1 + log 10 1001) * 10 + 1 / 2 :: real\<rfloor> = 80"
    by (rule floor_unique)
  then show ?thesis by (simp add: round1_real_def)
qed

lemma round1_real_8: "round1_real 8 = 8"
  by (simp add: round1_real_def)

lemma tie_to_topic:
  "to_topic (''kernel'', 2, 2000) = \<lparr>word = ''kernel'', count = 2, weight = 8, isTech = False\<rparr>"
  "to_topic (''compiler'', 2, 2002)
     = \<lparr>word = ''compiler'', count = 2, weight = 8, isTech = False\<rparr>"
  unfolding to_topic_def prod.case tie_weights tie_round round1_real_8
  using tie_tokens(7,8) by simp_all

lemma tie_topics:
  "extractTrendingTopics rounding_tie_batch None =
     [\<lparr>word = ''kernel'', count = 2, weight = 8, isTech = False\<rparr>,
      \<lparr>word = ''compiler'', count = 2, weight = 8, isTech = False\<rparr>]"
  by (simp add: extractTrendingTopics_def candidate_topics_def tie_counts tie_to_topic)

lemma reorder_tokens:
  "title_words ''Great news: Rust'' = [''great'', ''news'', ''rust'']"
  "title_words ''Rust is great'' = [''rust'', ''great'']"
  "uniqueWords [''great'', ''news'', ''rust''] = [''great'', ''news'', ''rust'']"
  "uniqueWords [''rust'', ''great''] = [''rust'', ''great'']"
  by code_simp+

lemma reorder_counts:
  "wordCounts reorder_batch = [(''great'', 2, 20), (''news'', 1, 10), (''rust'', 2, 20)]"
  by (simp add: wordCounts_def reorder_batch_def add_story_def reorder_tokens add_word_def)

lemma reorder_candidates:
  "candidate_topics reorder_batch =
     [\<lparr>word = ''great'', count = 2, weight = 4, isTech = False\<rparr>,
      \<lparr>word = ''rust'', count = 2, weight = 6, isTech = True\<rparr>]"
  by (simp add: candidate_topics_def reorder_counts to_topic_def topic_weight_def
      round1_real_def tech_members)

lemma reorder_topics:
  "extractTrendingTopics reorder_batch None =
     [\<lparr>word = ''rust'', count = 2, weight = 6, isTech = True\<rparr>,
      \<lparr>word = ''great'', count = 2, weight = 4, isTech = False\<rparr>]"
  "extractTrendingTopics reorder_batch (Some 1) =
     [\<lparr>word = ''rust'', count = 2, weight = 6, isTech = True\<rparr>]"
  by (simp_all add: extractTrendingTopics_def reorder_candidates)

lemma log10_75_bounds: "15 / 8 \<le> log 10 (75 :: real) \<and> log 10 (75 :: real) < 32 / 17"
proof
  have "real 15 / real 8 \<le> log 10 (75 :: real)"
    by (rule log10_ge_ratio) simp_all
  then show "15 / 8 \<le> log 10 (75 :: real)" by simp
  have "log 10 (75 :: real) < real 32 / real 17"
    by (rule log10_less_ratio) simp_all
  then show "log 10 (75 :: real) < 32 / 17" by simp
qed

lemma pair_tokens:
  "title_words ''Rust is great'' = [''rust'', ''great'']"
  "title_words ''Great Rust'' = [''great'', ''rust'']"
  "uniqueWords [''rust'', ''great''] = [''rust'', ''great'']"
  "uniqueWords [''great'', ''rust''] = [''great'', ''rust'']"
  by code_simp+

lemma pair_counts:
  "wordCounts tech_pair_batch = [(''rust'', 2, 150), (''great'', 2, 150)]"
  by (simp add: wordCounts_def tech_pair_batch_def add_story_def pair_tokens add_word_def)

lemma pair_weights:
  "topic_weight ''rust'' 2 150 = 3 * (1 + log 10 75)"
  "topic_weight ''great'' 2 150 = 2 * (1 + log 10 75)"
  by (simp_all add: topic_weight_def tech_members)

lemma pair_round:
  "round1_real (3 * (1 + log 10 75)) = 43 / 5"
  "round1_real (2 * (1 + log 10 75)) = 29 / 5"
proof -
  have "of_int 86 \<le> 3 * (1 + log 10 75) * 10 + 1 / 2"
    "3 * (1 + log 10 75) * 10 + 1 / 2 < of_int 86 + (1 :: real)"
    using log10_75_bounds by simp_all
  then have "\<lfloor>3 * (1 + log 10 75) * 10 + 1 / 2 :: real\<rfloor> = 86"
    by (rule floor_unique)
  then show "round1_real (3 * (1 + log 10 75)) = 43 / 5"
    by (simp add: round1_real_def)
  have "of_int 58 \<le> 2 * (1 + log 10 75) * 10 + 1 / 2"
    "2 * (1 + log 10 75) * 10 + 1 / 2 < of_int 58 + (1 :: real)"
    using log10_75_bounds by simp_all
  then have "\<lfloor>2 * (1 + log 10 75) * 10 + 1 / 2 :: real\<rfloor> = 58"
    by (rule floor_unique)
  then show "round1_real (2 * (1 + log 10 75)) = 29 / 5"
    by (simp add: round1_real_def)
qed

lemma pair_to_topic:
  "to_topic (''rust'', 2, 150) = \<lparr>word = ''rust'', count = 2, weight = 43 / 5, isTech = True\<rparr>"
  "to_topic (''great'', 2, 150) = \<lparr>word = ''great'', count = 2, weight = 29 / 5, isTech = False\<rparr>"
  unfolding to_topic_def prod.case pair_weights pair_round
  using tech_members by simp_all

lemma pair_topics:
  "extractTrendingTopics tech_pair_batch None =
     [\<lparr>word = ''rust'', count = 2, weight = 43 / 5, isTech = True\<rparr>,
      \<lparr>word = ''great'', count = 2, weight = 29 / 5, isTech = False\<rparr>]"
  by (simp add: extractTrendingTopics_def candidate_topics_def pair_counts pair_to_topic)

subsection \<open>Counts\<close>

text \<open>
  C5. Every topic that \<open>extractTrendingTopics\<close> returns has as its \<open>count\<close> the number
  of stories of the batch whose title has the word among its tokens, each story counted
  once however often the word is repeated in its title, and this count is at least 2.
\<close>

theorem topic_count:
  "\<forall>t \<in> set (extractTrendingTopics stories limit).
     count t = length (filter (\<lambda>s. mentions s (word t)) stories) \<and> 2 \<le> count t"
proof
  fix t
  assume "t \<in> set (extractTrendingTopics stories limit)"
  then have "t \<in> set (candidate_topics stories)"
    using extractTrendingTopics_subset by blast
  then obtain p where "(word t, count t, p) \<in> set (wordCounts stories)" and "2 \<le> count t"
    using candidate_topics_entry by blast
  then show "count t = length (filter (\<lambda>s. mentions s (word t)) stories) \<and> 2 \<le> count t"
    using wordCounts_entry by blast
qed

text \<open>
  Witness for C5: \<open>zig\<close> is five times in the first title and in no other, so its count
  is 1 and it is not returned; \<open>rust\<close> is in two titles and is returned with count 2.
\<close>

theorem topic_count_witness:
  "extractTrendingTopics repeated_word_batch None
     = [\<lparr>word = ''rust'', count = 2, weight = 6, isTech = True\<rparr>]
   \<and> length (filter (\<lambda>s. mentions s ''rust'') repeated_word_batch) = 2
   \<and> length (filter (\<lambda>s. mentions s ''zig'') repeated_word_batch) = 1"
  using topic_count [of repeated_word_batch None]
  by (simp add: repeated_word_topics repeated_word_mentions)

subsection \<open>Order, truncation and rounding\<close>

text \<open>
  Counterexample to C6: \<open>kernel\<close> has the unrounded weight 8 and \<open>compiler\<close>, inserted
  after it, the larger unrounded weight \<open>2 * (1 + log10 1001)\<close>. Both round to 8.0, the
  sort compares the rounded weights and leaves \<open>kernel\<close> first: the result is not in
  descending order of the unrounded weight.
\<close>

theorem sort_on_unrounded_weight_counterexample:
  "map word (extractTrendingTopics rounding_tie_batch None) = [''kernel'', ''compiler'']
   \<and> map weight (extractTrendingTopics rounding_tie_batch None) = [8, 8]
   \<and> wordCounts rounding_tie_batch = [(''kernel'', 2, 2000), (''compiler'', 2, 2002)]
   \<and> topic_weight ''kernel'' 2 2000 < topic_weight ''compiler'' 2 2002"
  using log10_tie_bounds by (simp add: tie_topics tie_counts tie_weights)

lemma sorted_desc_sort_key:
  "sorted_wrt (\<lambda>a b. weight b \<le> weight a) (sort_key (\<lambda>t. - weight t) (xs :: topic list))"
proof -
  have "sorted (map (\<lambda>t. - weight t) (sort_key (\<lambda>t. - weight t) xs))"
    by (rule sorted_sort_key)
  then show ?thesis by (simp add: sorted_map)
qed

lemma stable_desc_sort_key:
  "filter (\<lambda>t. weight t = k) (sort_key (\<lambda>t. - weight t) (xs :: topic list))
     = filter (\<lambda>t. weight t = k) xs"
  using sort_key_stable [of "\<lambda>t. - weight t" "- k" xs] by simp

text \<open>
  C6, amended. The result is the first \<open>limit\<close> topics (15 without a limit) of a list
  that is in descending order of the returned, rounded \<open>weight\<close> and that keeps the topics
  of equal rounded weight in their insertion order; it has at most \<open>limit\<close> entries; and
  the \<open>weight\<close> of each returned topic is the unrounded weight of its word rounded to one
  decimal place.
\<close>

theorem extractTrendingTopics_order:
  fixes stories :: "story list" and limit :: "nat option"
  defines "n \<equiv> (case limit of None \<Rightarrow> 15 | Some k \<Rightarrow> k)"
  shows "(\<exists>full. extractTrendingTopics stories limit = take n full
            \<and> sorted_wrt (\<lambda>a b. weight b \<le> weight a) full
            \<and> (\<forall>k. filter (\<lambda>t. weight t = k) full
                     = filter (\<lambda>t. weight t = k) (candidate_topics stories)))
       \<and> length (extractTrendingTopics stories limit) \<le> n
       \<and> (\<forall>t \<in> set (extractTrendingTopics stories limit).
             \<exists>p. (word t, count t, p) \<in> set (wordCounts stories)
                \<and> weight t = round1_real (topic_weight (word t) (count t) p))"
proof (intro conjI)
  let ?full = "sort_key (\<lambda>t. - weight t) (candidate_topics stories)"
  have "extractTrendingTopics stories limit = take n ?full"
    by (simp add: extractTrendingTopics_def n_def)
  moreover have "sorted_wrt (\<lambda>a b. weight b \<le> weight a) ?full"
    by (rule sorted_desc_sort_key)
  moreover have "\<forall>k. filter (\<lambda>t. weight t = k) ?full
                     = filter (\<lambda>t. weight t = k) (candidate_topics stories)"
    by (simp add: stable_desc_sort_key)
  ultimately show "\<exists>full. extractTrendingTopics stories limit = take n full
            \<and> sorted_wrt (\<lambda>a b. weight b \<le> weight a) full
            \<and> (\<forall>k. filter (\<lambda>t. weight t = k) full
                     = filter (\<lambda>t. weight t = k) (candidate_topics stories))"
    by blast
  show "length (extractTrendingTopics stories limit) \<le> n"
    by (simp add: extractTrendingTopics_def n_def)
  show "\<forall>t \<in> set (extractTrendingTopics stories limit).
             \<exists>p. (word t, count t, p) \<in> set (wordCounts stories)
                \<and> weight t = round1_real (topic_weight (word t) (count t) p)"
    using extractTrendingTopics_subset candidate_topics_entry by blast
qed

text \<open>
  Witness for C6: \<open>great\<close> (weight 4) is inserted before \<open>rust\<close> (weight 6) and comes
  after it in the result; with the limit 1 only \<open>rust\<close> is left; and the two topics of
  equal rounded weight stay in insertion order.
\<close>

theorem extractTrendingTopics_order_witness:
  "extractTrendingTopics reorder_batch None =
     [\<lparr>word = ''rust'', count = 2, weight = 6, isTech = True\<rparr>,
      \<lparr>word = ''great'', count = 2, weight = 4, isTech = False\<rparr>]
   \<and> extractTrendingTopics reorder_batch (Some 1) =
     [\<lparr>word = ''rust'', count = 2, weight = 6, isTech = True\<rparr>]
   \<and> map word (candidate_topics reorder_batch) = [''great'', ''rust'']
   \<and> map word (extractTrendingTopics rounding_tie_batch None) = [''kernel'', ''compiler'']"
  using extractTrendingTopics_order [of reorder_batch None]
    extractTrendingTopics_order [of reorder_batch "Some 1"]
    extractTrendingTopics_order [of rounding_tie_batch None]
  by (simp only: reorder_topics tie_topics reorder_candidates) simp

subsection \<open>The bonus of the tech keywords\<close>

text \<open>
  Counterexample to C9: \<open>rust\<close>, a tech keyword, and \<open>great\<close> are both in the same two
  stories, with 150 points together. The topics returned have the weights 8.6 and 5.8,
  the unrounded weights \<open>3 * (1 + log10 75)\<close> and \<open>2 * (1 + log10 75)\<close> rounded to one
  decimal place, and 8.6 is not 1.5 times 5.8.
\<close>

theorem returned_tech_weight_counterexample:
  "wordCounts tech_pair_batch = [(''rust'', 2, 150), (''great'', 2, 150)]
   \<and> extractTrendingTopics tech_pair_batch None =
     [\<lparr>word = ''rust'', count = 2, weight = 43 / 5, isTech = True\<rparr>,
      \<lparr>word = ''great'', count = 2, weight = 29 / 5, isTech = False\<rparr>]
   \<and> (43 / 5 :: real) \<noteq> 3 / 2 * (29 / 5)"
  by (simp add: pair_counts pair_topics)

lemma round1_real_error: "\<bar>round1_real x - x\<bar> \<le> 1 / 20"
proof -
  define f where "f = real_of_int \<lfloor>x * 10 + 1 / 2\<rfloor>"
  have "f \<le> x * 10 + 1 / 2" "x * 10 + 1 / 2 < f + 1"
    unfolding f_def by linarith+
  then have "f / 10 - x \<le> 1 / 20" "- (1 / 20) \<le> f / 10 - x"
    by linarith+
  then have "\<bar>f / 10 - x\<bar> \<le> 1 / 20"
    by linarith
  then show ?thesis by (simp only: round1_real_def f_def)
qed

lemma candidate_in_result:
  assumes "length (candidate_topics stories) \<le> (case limit of None \<Rightarrow> 15 | Some k \<Rightarrow> k)"
  shows "set (extractTrendingTopics stories limit) = set (candidate_topics stories)"
  using assms by (simp add: extractTrendingTopics_def)

text \<open>
  C9, amended. Before the rounding, the \<open>weight\<close> of a word of \<open>TECH_KEYWORDS\<close> is
  exactly 1.5 times that of a word outside the set with the same count and points, which
  is \<open>count * (1 + log10 (max avgPoints 1))\<close> with \<open>avgPoints = points / count\<close>. Every
  topic returned carries this weight of its word rounded to one decimal place, and the
  flag \<open>isTech\<close>; a word counted in two stories or more is returned with them whenever the
  limit does not cut the list. The two rounded weights are in the ratio 1.5 up to the
  rounding only: they differ from it by 0.125 at most.
\<close>

theorem tech_bonus:
  fixes stories :: "story list" and limit :: "nat option"
  defines "n \<equiv> (case limit of None \<Rightarrow> 15 | Some k \<Rightarrow> k)"
  shows "(w1 \<in> set TECH_KEYWORDS \<and> w2 \<notin> set TECH_KEYWORDS \<longrightarrow>
            topic_weight w2 c p = real c * (1 + log 10 (max (p / real c) 1))
            \<and> topic_weight w1 c p = 3 / 2 * topic_weight w2 c p
            \<and> \<bar>round1_real (topic_weight w1 c p) - 3 / 2 * round1_real (topic_weight w2 c p)\<bar>
                \<le> 1 / 8)
       \<and> (\<forall>t \<in> set (extractTrendingTopics stories limit).
             \<exists>q. (word t, count t, q) \<in> set (wordCounts stories)
                \<and> weight t = round1_real (topic_weight (word t) (count t) q)
                \<and> isTech t = (word t \<in> set TECH_KEYWORDS))
       \<and> ((w, k, q) \<in> set (wordCounts stories) \<and> 2 \<le> k
             \<and> length (candidate_topics stories) \<le> n \<longrightarrow>
            \<lparr>word = w, count = k, weight = round1_real (topic_weight w k q),
             isTech = (w \<in> set TECH_KEYWORDS)\<rparr> \<in> set (extractTrendingTopics stories limit))"
proof (intro conjI impI)
  assume h: "w1 \<in> set TECH_KEYWORDS \<and> w2 \<notin> set TECH_KEYWORDS"
  show a: "topic_weight w2 c p = real c * (1 + log 10 (max (p / real c) 1))"
    using h by (simp add: topic_weight_def)
  show b: "topic_weight w1 c p = 3 / 2 * topic_weight w2 c p"
    using h by (simp add: topic_weight_def)
  have "\<bar>round1_real (topic_weight w1 c p) - topic_weight w1 c p\<bar> \<le> 1 / 20"
    "\<bar>round1_real (topic_weight w2 c p) - topic_weight w2 c p\<bar> \<le> 1 / 20"
    by (rule round1_real_error)+
  then show "\<bar>round1_real (topic_weight w1 c p) - 3 / 2 * round1_real (topic_weight w2 c p)\<bar>
                \<le> 1 / 8"
    unfolding b by linarith
next
  show "\<forall>t \<in> set (extractTrendingTopics stories limit).
             \<exists>q. (word t, count t, q) \<in> set (wordCounts stories)
                \<and> weight t = round1_real (topic_weight (word t) (count t) q)
                \<and> isTech t = (word t \<in> set TECH_KEYWORDS)"
    using extractTrendingTopics_subset candidate_topics_entry by blast
next
  assume h: "(w, k, q) \<in> set (wordCounts stories) \<and> 2 \<le> k
             \<and> length (candidate_topics stories) \<le> n"
  have "to_topic (w, k, q) \<in> to_topic ` set (wordCounts stories)"
    using h by (intro imageI) simp
  moreover have "2 \<le> count (to_topic (w, k, q))"
    using h by (simp add: to_topic_def)
  ultimately have "to_topic (w, k, q) \<in> set (candidate_topics stories)"
    by (simp add: candidate_topics_def)
  moreover have "set (extractTrendingTopics stories limit) = set (candidate_topics stories)"
    using h unfolding n_def by (intro candidate_in_result) simp
  ultimately show "\<lparr>word = w, count = k, weight = round1_real (topic_weight w k q),
             isTech = (w \<in> set TECH_KEYWORDS)\<rparr> \<in> set (extractTrendingTopics stories limit)"
    by (simp add: to_topic_def)
qed

text \<open>
  Witness for C9: \<open>rust\<close> against \<open>great\<close>, in two stories with 150 points together,
  both returned with their rounded weights.
\<close>

theorem tech_bonus_witness:
  "''rust'' \<in> set TECH_KEYWORDS \<and> ''great'' \<notin> set TECH_KEYWORDS
   \<and> topic_weight ''rust'' 2 150 = 3 / 2 * topic_weight ''great'' 2 150
   \<and> topic_weight ''great'' 2 150 = 2 * (1 + log 10 75)
   \<and> (''rust'', 2, 150) \<in> set (wordCounts tech_pair_batch)
   \<and> length (candidate_topics tech_pair_batch) \<le> 15
   \<and> \<lparr>word = ''rust'', count = 2, weight = round1_real (topic_weight ''rust'' 2 150),
       isTech = True\<rparr> \<in> set (extractTrendingTopics tech_pair_batch None)
   \<and> \<lparr>word = ''great'', count = 2, weight = round1_real (topic_weight ''great'' 2 150),
       isTech = False\<rparr> \<in> set (extractTrendingTopics tech_pair_batch None)
   \<and> \<bar>round1_real (topic_weight ''rust'' 2 150)
        - 3 / 2 * round1_real (topic_weight ''great'' 2 150)\<bar> \<le> 1 / 8"
proof -
  have m: "''rust'' \<in> set TECH_KEYWORDS \<and> ''great'' \<notin> set TECH_KEYWORDS"
    by (simp add: tech_members)
  have e: "(''rust'', 2, 150) \<in> set (wordCounts tech_pair_batch)"
    "(''great'', 2, 150) \<in> set (wordCounts tech_pair_batch)"
    by (simp_all add: pair_counts)
  have len: "length (candidate_topics tech_pair_batch) \<le> 15"
    by (simp add: candidate_topics_def pair_counts pair_to_topic)
  have two: "2 \<le> (2 :: nat)" by simp
  note rust = tech_bonus [of "''rust''" "''great''" 2 150 tech_pair_batch None "''rust''" 2 150,
      unfolded option.case]
  note great = tech_bonus [of "''rust''" "''great''" 2 150 tech_pair_batch None "''great''" 2 150,
      unfolded option.case]
  have w: "topic_weight ''great'' 2 150 = real 2 * (1 + log 10 (max (150 / real 2) 1))"
    "topic_weight ''rust'' 2 150 = 3 / 2 * topic_weight ''great'' 2 150"
    "\<bar>round1_real (topic_weight ''rust'' 2 150)
        - 3 / 2 * round1_real (topic_weight ''great'' 2 150)\<bar> \<le> 1 / 8"
    using rust m by blast+
  have w1: "topic_weight ''great'' 2 150 = 2 * (1 + log 10 75)"
    unfolding w(1) by simp
  have r: "\<lparr>word = ''rust'', count = 2, weight = round1_real (topic_weight ''rust'' 2 150),
       isTech = (''rust'' \<in> set TECH_KEYWORDS)\<rparr> \<in> set (extractTrendingTopics tech_pair_batch None)"
    using rust e(1) len two by blast
  have g: "\<lparr>word = ''great'', count = 2, weight = round1_real (topic_weight ''great'' 2 150),
       isTech = (''great'' \<in> set TECH_KEYWORDS)\<rparr> \<in> set (extractTrendingTopics tech_pair_batch None)"
    using great e(2) len two by blast
  have r': "\<lparr>word = ''rust'', count = 2, weight = round1_real (topic_weight ''rust'' 2 150),
       isTech = True\<rparr> \<in> set (extractTrendingTopics tech_pair_batch None)"
    using r by (simp only: tech_members simp_thms)
  have g': "\<lparr>word = ''great'', count = 2, weight = round1_real (topic_weight ''great'' 2 150),
       isTech = False\<rparr> \<in> set (extractTrendingTopics tech_pair_batch None)"
    using g by (simp only: tech_members simp_thms)
  show ?thesis
    using m w(2) w1 e(1) len r' g' w(3) by blast
qed

end
